theory Spec2Isabelle
  imports Main "HOL-Library.Multiset"
begin

section \<open>Values and errors of the ingestion notebook\<close>

text \<open>
  The notebook (3. Data Setup) handles JSON documents returned by the data platform and
  Python exceptions. JSON numbers are modelled as integers (the only number the code
  inspects is the page's \<open>total\<close>), Python's \<open>None\<close> is \<open>JNull\<close>, and a dict is an
  association list read with \<open>map_of\<close>.
\<close>

datatype json =
    JNull
  | JBool bool
  | JInt int
  | JString string
  | JArray "json list"
  | JObject "(string \<times> json) list"

text \<open>
  The exceptions that the code can meet. \<open>HTTPError\<close> (raised by
  \<open>response.raise_for_status()\<close>), \<open>ConnectionError\<close> (the transport failing) and
  \<open>JSONDecodeError\<close> (raised by \<open>response.json()\<close>) are the subclasses of
  \<open>requests.RequestException\<close>; the others are built-in exceptions. \<open>RetryError\<close> is
  tenacity's, and carries the failure of the last attempt.
\<close>

datatype error =
    HTTPError nat
  | ConnectionError
  | JSONDecodeError
  | FileNotFoundError string
  | AssertionError
  | KeyError json
  | IndexError
  | TypeError
  | AttributeError
  | UnboundLocalError string
  | ValueError
  | RetryError error

fun is_RequestException :: "error \<Rightarrow> bool" where
  "is_RequestException (HTTPError _) = True"
| "is_RequestException ConnectionError = True"
| "is_RequestException JSONDecodeError = True"
| "is_RequestException _ = False"

text \<open>
  A cell of a pandas DataFrame, or a value stored in one of the notebook's dicts: a JSON
  value (\<open>Value JNull\<close> is both \<open>None\<close> and the \<open>NaN\<close> of a missing entry), the text that
  \<open>json.dumps(v, indent=4)\<close> produces for \<open>v\<close>, or the text \<open>str(e)\<close> of an exception.
  The two texts are kept symbolic.
\<close>

datatype cell = Value json | Dumps json | Str_of error

text \<open>\<open>d[key]\<close> for a string key, \<open>x[0]\<close>, \<open>d.get(key, default)\<close> and \<open>x > 0\<close> on a JSON value.\<close>

fun getitem :: "json \<Rightarrow> string \<Rightarrow> error + json" where
  "getitem (JObject kvs) key =
     (case map_of kvs key of None \<Rightarrow> Inl (KeyError (JString key)) | Some v \<Rightarrow> Inr v)"
| "getitem _ key = Inl TypeError"

fun getitem0 :: "json \<Rightarrow> error + json" where
  "getitem0 (JArray []) = Inl IndexError"
| "getitem0 (JArray (x # xs)) = Inr x"
| "getitem0 (JString []) = Inl IndexError"
| "getitem0 (JString (c # cs)) = Inr (JString [c])"
| "getitem0 (JObject kvs) = Inl (KeyError (JInt 0))"
| "getitem0 _ = Inl TypeError"

fun get_default :: "json \<Rightarrow> string \<Rightarrow> json \<Rightarrow> error + json" where
  "get_default (JObject kvs) key dflt =
     (case map_of kvs key of None \<Rightarrow> Inr dflt | Some v \<Rightarrow> Inr v)"
| "get_default _ key dflt = Inl AttributeError"

fun greater_than_zero :: "json \<Rightarrow> error + bool" where
  "greater_than_zero (JInt n) = Inr (n > 0)"
| "greater_than_zero (JBool b) = Inr b"
| "greater_than_zero _ = Inl TypeError"

text \<open>
  An HTTP response: its status code and its body, \<open>None\<close> when the body is not JSON.
  \<open>raise_for_status\<close> raises for the codes 400 to 599 only.
\<close>

record response =
  status_code :: nat
  body :: "json option"

definition raise_for_status :: "response \<Rightarrow> error + unit" where
  "raise_for_status r =
     (if 400 \<le> status_code r \<and> status_code r < 600 then Inl (HTTPError (status_code r))
      else Inr ())"

definition response_json :: "response \<Rightarrow> error + json" where
  "response_json r = (case body r of None \<Rightarrow> Inl JSONDecodeError | Some j \<Rightarrow> Inr j)"

section \<open>The retry decorator\<close>

text \<open>
  Both operations are decorated with
  \<^verbatim>\<open>
  @retry(
      stop=stop_after_attempt(3),
      wait=wait_exponential(multiplier=1, min=2, max=10),
      retry=retry_if_exception_type(requests.RequestException),
  )
  \<close>
  of the tenacity library. \<open>stop_after_attempt\<close> stops once the attempt number has
  reached the maximum; \<open>wait_exponential\<close> computes
  \<open>max(max(0, min), min(multiplier * 2 ** (attempt_number - 1), max))\<close>;
  \<open>retry_if_exception_type\<close> retries an attempt that raised an instance of the given
  class. \<open>reraise\<close> is not set, so that tenacity raises its \<open>RetryError\<close> when it stops.
\<close>

definition stop_after_attempt :: "nat \<Rightarrow> nat \<Rightarrow> bool" where
  "stop_after_attempt max_attempt_number attempt_number =
     (attempt_number \<ge> max_attempt_number)"

definition wait_exponential :: "int \<Rightarrow> int \<Rightarrow> int \<Rightarrow> nat \<Rightarrow> int" where
  "wait_exponential multiplier min_wait max_wait attempt_number =
     (let exp = 2 ^ (attempt_number - 1);
          result = multiplier * exp
      in max (max 0 min_wait) (min result max_wait))"

definition retry_if_exception_type :: "error \<Rightarrow> bool" where
  "retry_if_exception_type e = is_RequestException e"

text \<open>
  The loop of the decorator. \<open>fn n\<close> is what the \<open>n\<close>-th call of the decorated function
  does: return a value or raise. The loop returns the outcome, the number of the last
  attempt (attempts are numbered from 1, so this is the number of calls made) and the
  delays slept between the attempts, in order.
\<close>

function retrying :: "(nat \<Rightarrow> error + 'a) \<Rightarrow> nat \<Rightarrow> int list \<Rightarrow> (error + 'a) \<times> nat \<times> int list" where
  "retrying fn attempt_number slept =
     (case fn attempt_number of
        Inr result \<Rightarrow> (Inr result, attempt_number, slept)
      | Inl e \<Rightarrow>
          if \<not> retry_if_exception_type e then (Inl e, attempt_number, slept)
          else if stop_after_attempt 3 attempt_number then (Inl (RetryError e), attempt_number, slept)
          else retrying fn (attempt_number + 1) (slept @ [wait_exponential 1 2 10 attempt_number]))"
  by pat_completeness auto
termination
  by (relation "measure (\<lambda>(fn, attempt_number, slept). 3 - attempt_number)")
     (auto simp: stop_after_attempt_def)

definition retry :: "(nat \<Rightarrow> error + 'a) \<Rightarrow> (error + 'a) \<times> nat \<times> int list" where
  "retry fn = retrying fn 1 []"

section \<open>The two retried operations\<close>

text \<open>
  The world outside the notebook: which local files can be opened, and what the data
  platform answers to the \<open>n\<close>-th attempt of an upload (by stage, name and ingestion
  context) and of a status query (by transformation and file id), and what \<open>os.listdir\<close>
  returns. \<open>None\<close> is a request that fails in the transport (\<open>requests\<close> raises
  \<open>ConnectionError\<close>).
\<close>

record env =
  file_exists :: "string \<Rightarrow> bool"
  post_files :: "string \<Rightarrow> string \<Rightarrow> json \<Rightarrow> nat \<Rightarrow> response option"
  get_runs :: "string \<Rightarrow> cell \<Rightarrow> nat \<Rightarrow> response option"
  os_listdir :: "string \<Rightarrow> error + string list"

definition request :: "response option \<Rightarrow> error + response" where
  "request answer = (case answer of None \<Rightarrow> Inl ConnectionError | Some r \<Rightarrow> Inr r)"

text \<open>The body of \<open>ingest_document\<close>, at its \<open>n\<close>-th call.\<close>

definition ingest_document_body ::
  "env \<Rightarrow> string \<Rightarrow> json \<Rightarrow> string \<Rightarrow> string \<Rightarrow> nat \<Rightarrow> error + json" where
  "ingest_document_body w document_path ingestion_context name stage_id n =
     (if \<not> file_exists w document_path then Inl (FileNotFoundError document_path)
      else case request (post_files w stage_id name ingestion_context n) of
        Inl e \<Rightarrow> Inl e
      | Inr response \<Rightarrow>
          (case raise_for_status response of
             Inl e \<Rightarrow> Inl e
           | Inr _ \<Rightarrow>
               (case response_json response of
                  Inl e \<Rightarrow> Inl e
                | Inr file_uploaded \<Rightarrow>
                    (case getitem file_uploaded ''fileId'' of
                       Inl e \<Rightarrow> Inl e
                     | Inr fid \<Rightarrow>
                         Inr (JObject [(''file_id'', fid),
                                       (''status'', JString ''Success''),
                                       (''error_type'', JNull),
                                       (''error_message'', JNull)])))))"

definition ingest_document ::
  "env \<Rightarrow> string \<Rightarrow> json \<Rightarrow> string \<Rightarrow> string \<Rightarrow> (error + json) \<times> nat \<times> int list" where
  "ingest_document w document_path ingestion_context name stage_id =
     retry (ingest_document_body w document_path ingestion_context name stage_id)"

text \<open>The body of \<open>check_status_of_ingestion\<close>, at its \<open>n\<close>-th call.\<close>

definition check_status_of_ingestion_body :: "env \<Rightarrow> string \<Rightarrow> cell \<Rightarrow> nat \<Rightarrow> error + json" where
  "check_status_of_ingestion_body w transformation_id fid n =
     (case request (get_runs w transformation_id fid n) of
        Inl e \<Rightarrow> Inl e
      | Inr response \<Rightarrow>
          (case raise_for_status response of
             Inl e \<Rightarrow> Inl e
           | Inr _ \<Rightarrow>
               (case response_json response of
                  Inl e \<Rightarrow> Inl e
                | Inr page \<Rightarrow>
                    (case getitem page ''total'' of
                       Inl e \<Rightarrow> Inl e
                     | Inr page_total \<Rightarrow>
                         (case greater_than_zero page_total of
                            Inl e \<Rightarrow> Inl e
                          | Inr positive \<Rightarrow>
                              if \<not> positive then Inl AssertionError
                              else (case getitem page ''runs'' of
                                      Inl e \<Rightarrow> Inl e
                                    | Inr runs \<Rightarrow> getitem0 runs))))))"

definition check_status_of_ingestion ::
  "env \<Rightarrow> string \<Rightarrow> cell \<Rightarrow> (error + json) \<times> nat \<times> int list" where
  "check_status_of_ingestion w transformation_id fid =
     retry (check_status_of_ingestion_body w transformation_id fid)"

section \<open>DataFrames\<close>

text \<open>
  A row is the dict it was built from, a DataFrame built by \<open>pd.DataFrame(rows)\<close> the list
  of its rows: its columns are the keys of the rows, and an entry that a row lacks reads
  as \<open>NaN\<close>. A frame without rows has no columns.
\<close>

type_synonym row = "(string \<times> cell) list"

definition columns :: "row list \<Rightarrow> string list" where
  "columns df = rev (remdups (rev (concat (map (map fst) df))))"

definition column :: "row \<Rightarrow> string \<Rightarrow> cell" where
  "column r c = (case map_of r c of None \<Rightarrow> Value JNull | Some v \<Rightarrow> v)"

text \<open>
  \<open>left.merge(right, on="file_id", how="left", suffixes=("_ingestion", ""))\<close>: the key must
  be a column of both frames; every row of the left frame is kept, in order, once for each
  row of the right frame with the same key, or once with empty entries when there is
  none; a column other than the key that both frames have gets the suffix on the left.
\<close>

definition merge_left :: "row list \<Rightarrow> row list \<Rightarrow> error + row list" where
  "merge_left left right =
     (if ''file_id'' \<in> set (columns left) \<and> ''file_id'' \<in> set (columns right)
      then
        let right_columns = filter (\<lambda>c. c \<noteq> ''file_id'') (columns right);
            left_name = (\<lambda>c. if c \<in> set right_columns then c @ ''_ingestion'' else c);
            left_part = (\<lambda>l. map (\<lambda>c. (left_name c, column l c)) (columns left));
            right_part = (\<lambda>r. map (\<lambda>c. (c, column r c)) right_columns);
            no_match = map (\<lambda>c. (c, Value JNull)) right_columns
        in Inr (concat (map (\<lambda>l.
              case filter (\<lambda>r. column r ''file_id'' = column l ''file_id'') right of
                [] \<Rightarrow> [left_part l @ no_match]
              | matches \<Rightarrow> map (\<lambda>r. left_part l @ right_part r) matches) left))
      else Inl (KeyError (JString ''file_id'')))"

section \<open>Phase 1: ingest_all_documents\<close>

text \<open>\<open>os.path.join(a, b)\<close> on POSIX.\<close>

definition os_path_join :: "string \<Rightarrow> string \<Rightarrow> string" where
  "os_path_join a b =
     (if take 1 b = ''/'' then b
      else if a = [] \<or> last a = CHR ''/'' then a @ b
      else a @ ''/'' @ b)"

text \<open>
  The body of the loop over the completed futures: the row appended to \<open>results\<close> for one
  file, from what \<open>future.result()\<close> returns or raises.
  \<^verbatim>\<open>
  try:
      result = future.result()
      results.append({"file_path": file_path, "file_id": result["file_id"],
                      "status": result["status"], "error_type": result["error_type"],
                      "error_message": result["error_message"]})
  except Exception as e:
      results.append({"file_path": file_path, "file_id": None,
                      "status": "Ingestion Failed", "error": str(e)})
  \<close>
\<close>

definition ingested_row :: "string \<Rightarrow> json \<Rightarrow> error + row" where
  "ingested_row file_path result =
     (case getitem result ''file_id'' of
        Inl e \<Rightarrow> Inl e
      | Inr fid \<Rightarrow>
          (case getitem result ''status'' of
             Inl e \<Rightarrow> Inl e
           | Inr st \<Rightarrow>
               (case getitem result ''error_type'' of
                  Inl e \<Rightarrow> Inl e
                | Inr et \<Rightarrow>
                    (case getitem result ''error_message'' of
                       Inl e \<Rightarrow> Inl e
                     | Inr em \<Rightarrow>
                         Inr [(''file_path'', Value (JString file_path)),
                              (''file_id'', Value fid),
                              (''status'', Value st),
                              (''error_type'', Value et),
                              (''error_message'', Value em)]))))"

definition ingestion_failed_row :: "string \<Rightarrow> error \<Rightarrow> row" where
  "ingestion_failed_row file_path e =
     [(''file_path'', Value (JString file_path)),
      (''file_id'', Value JNull),
      (''status'', Value (JString ''Ingestion Failed'')),
      (''error'', Str_of e)]"

definition ingest_loop_body :: "string \<Rightarrow> (error + json) \<Rightarrow> row" where
  "ingest_loop_body file_path future =
     (case (case future of Inl e \<Rightarrow> Inl e | Inr result \<Rightarrow> ingested_row file_path result) of
        Inr r \<Rightarrow> r
      | Inl e \<Rightarrow> ingestion_failed_row file_path e)"

text \<open>
  \<open>ingest_all_documents\<close>. \<open>ThreadPoolExecutor\<close> refuses \<open>max_workers <= 0\<close> with a
  \<open>ValueError\<close>; a future holds what its call of \<open>ingest_document\<close> returns or raises;
  \<open>as_completed\<close> yields the futures in the order in which they finish, a parameter here.
\<close>

definition ingest_all_documents ::
  "env \<Rightarrow> (((error + json) \<times> string) list \<Rightarrow> ((error + json) \<times> string) list) \<Rightarrow>
   string \<Rightarrow> json \<Rightarrow> string \<Rightarrow> int \<Rightarrow> error + row list" where
  "ingest_all_documents w as_completed directory_path ingestion_context stage_id max_workers =
     (if max_workers \<le> 0 then Inl ValueError
      else case os_listdir w directory_path of
        Inl e \<Rightarrow> Inl e
      | Inr files \<Rightarrow>
          let future_to_file =
                map (\<lambda>file.
                  (fst (ingest_document w (os_path_join directory_path file)
                          ingestion_context file stage_id), file)) files
          in Inr (map (\<lambda>(future, file_name).
                    ingest_loop_body (os_path_join directory_path file_name) future)
                  (as_completed future_to_file)))"

section \<open>Phase 2: check_files_status\<close>

text \<open>
  \<open>df[df["status"] == "Success"]["file_id"].tolist()\<close>. The file ids are returned as the
  platform gave them (strings, in its answers); the conversion that pandas applies to a
  column of numbers that also holds \<open>None\<close> is not modelled.
\<close>

definition get_successful_document_ids :: "row list \<Rightarrow> error + cell list" where
  "get_successful_document_ids df =
     (if ''status'' \<notin> set (columns df) then Inl (KeyError (JString ''status''))
      else if ''file_id'' \<notin> set (columns df) then Inl (KeyError (JString ''file_id''))
      else Inr (map (\<lambda>r. column r ''file_id'')
                 (filter (\<lambda>r. column r ''status'' = Value (JString ''Success'')) df)))"

text \<open>
  The loop over the completed futures of \<open>check_files_status\<close>.
  \<^verbatim>\<open>
  for future in concurrent.futures.as_completed(future_to_file):
      file_id = future_to_file[future]
      try:
          run = future.result()
          output = json.dumps(run.get("output", {}), indent=4)
          status_results.append({"file_id": file_id, "run_id": run["runId"],
                                 "status": run["status"], "output": output,
                                 "error": run["errors"]})
      except Exception as e:
          status_results.append({"file_id": file_id, "status": run["status"],
                                 "output": None, "error": str(e)})
  \<close>
  \<open>run\<close> is a local variable of the function, assigned in the \<open>try\<close> block only: it is
  \<open>None\<close> here while it is unbound, and reading it then raises \<open>UnboundLocalError\<close>. An
  exception raised in the handler leaves the loop and the function.
\<close>

definition status_row :: "cell \<Rightarrow> json \<Rightarrow> error + row" where
  "status_row fid run =
     (case get_default run ''output'' (JObject []) of
        Inl e \<Rightarrow> Inl e
      | Inr out \<Rightarrow>
          (case getitem run ''runId'' of
             Inl e \<Rightarrow> Inl e
           | Inr run_id \<Rightarrow>
               (case getitem run ''status'' of
                  Inl e \<Rightarrow> Inl e
                | Inr st \<Rightarrow>
                    (case getitem run ''errors'' of
                       Inl e \<Rightarrow> Inl e
                     | Inr errors \<Rightarrow>
                         Inr [(''file_id'', fid),
                              (''run_id'', Value run_id),
                              (''status'', Value st),
                              (''output'', Dumps out),
                              (''error'', Value errors)]))))"

definition status_failed_row :: "cell \<Rightarrow> json option \<Rightarrow> error \<Rightarrow> error + row" where
  "status_failed_row fid run e =
     (case run of
        None \<Rightarrow> Inl (UnboundLocalError ''run'')
      | Some r \<Rightarrow>
          (case getitem r ''status'' of
             Inl e' \<Rightarrow> Inl e'
           | Inr st \<Rightarrow>
               Inr [(''file_id'', fid),
                    (''status'', Value st),
                    (''output'', Value JNull),
                    (''error'', Str_of e)]))"

fun status_loop ::
  "((error + json) \<times> cell) list \<Rightarrow> json option \<Rightarrow> row list \<Rightarrow> error + row list" where
  "status_loop [] run status_results = Inr status_results"
| "status_loop ((future, fid) # rest) run status_results =
     (case future of
        Inr r \<Rightarrow>
          (case status_row fid r of
             Inr new_row \<Rightarrow> status_loop rest (Some r) (status_results @ [new_row])
           | Inl e \<Rightarrow>
               (case status_failed_row fid (Some r) e of
                  Inl e' \<Rightarrow> Inl e'
                | Inr new_row \<Rightarrow> status_loop rest (Some r) (status_results @ [new_row])))
      | Inl e \<Rightarrow>
          (case status_failed_row fid run e of
             Inl e' \<Rightarrow> Inl e'
           | Inr new_row \<Rightarrow> status_loop rest run (status_results @ [new_row])))"

definition check_files_status ::
  "env \<Rightarrow> (((error + json) \<times> cell) list \<Rightarrow> ((error + json) \<times> cell) list) \<Rightarrow>
   string \<Rightarrow> row list \<Rightarrow> int \<Rightarrow> error + row list" where
  "check_files_status w as_completed transformation_id df max_workers =
     (case get_successful_document_ids df of
        Inl e \<Rightarrow> Inl e
      | Inr successful_file_ids \<Rightarrow>
          (if max_workers \<le> 0 then Inl ValueError
           else
             (let future_to_file =
                    map (\<lambda>fid. (fst (check_status_of_ingestion w transformation_id fid), fid))
                      successful_file_ids
              in (case status_loop (as_completed future_to_file) None [] of
                    Inl e \<Rightarrow> Inl e
                  | Inr status_results \<Rightarrow> merge_left df status_results))))"

section \<open>Extraction of the dataset ids\<close>

text \<open>
  \<open>status_df[status_df["status"] == "completed"]\<close>: the selected rows keep the index
  labels that they have in \<open>status_df\<close>, their positions there.
\<close>

definition completed_rows :: "row list \<Rightarrow> error + (nat \<times> row) list" where
  "completed_rows status_df =
     (if ''status'' \<notin> set (columns status_df) then Inl (KeyError (JString ''status''))
      else Inr (filter (\<lambda>(label, r). column r ''status'' = Value (JString ''completed''))
                 (enumerate 0 status_df)))"

text \<open>
  \<open>json.loads\<close>: the text made by \<open>json.dumps\<close> for a value is read back as that value;
  \<open>None\<close> and \<open>NaN\<close> are no text (\<open>TypeError\<close>). The frames of this notebook hold nothing
  else in the column \<open>output\<close>; for another text the model, which has no parser, answers with
  the \<open>ValueError\<close> of a text that is not JSON.
\<close>

fun json_loads :: "cell \<Rightarrow> error + json" where
  "json_loads (Dumps v) = Inr v"
| "json_loads (Value (JString s)) = Inl ValueError"
| "json_loads (Str_of e) = Inl ValueError"
| "json_loads (Value v) = Inl TypeError"

text \<open>
  \<^verbatim>\<open>
  def get_successful_dataset_ids(df):
      dataset_ids_list = []
      for i in range(len(df)):
          dataset_ids_list.append(json.loads(df["output"][i]).get("datasetId"))
      return dataset_ids_list
  \<close>
  \<open>df["output"][i]\<close> reads the Series by index label (the index holds integers): the row
  whose label is \<open>i\<close>, and a \<open>KeyError\<close> when no row has that label. The frame is given by
  its columns and its labelled rows: a selection of rows keeps the columns of the frame it
  was taken from, and an entry that a row lacks reads as \<open>NaN\<close>.
\<close>

fun dataset_ids_loop :: "(nat \<times> row) list \<Rightarrow> nat list \<Rightarrow> json list \<Rightarrow> error + json list" where
  "dataset_ids_loop df [] dataset_ids_list = Inr dataset_ids_list"
| "dataset_ids_loop df (i # is) dataset_ids_list =
     (case map_of df i of
        None \<Rightarrow> Inl (KeyError (JInt (int i)))
      | Some r \<Rightarrow>
          (case json_loads (column r ''output'') of
             Inl e \<Rightarrow> Inl e
           | Inr out \<Rightarrow>
               (case get_default out ''datasetId'' JNull of
                  Inl e \<Rightarrow> Inl e
                | Inr dataset_id \<Rightarrow> dataset_ids_loop df is (dataset_ids_list @ [dataset_id]))))"

definition get_successful_dataset_ids ::
  "string list \<Rightarrow> (nat \<times> row) list \<Rightarrow> error + json list" where
  "get_successful_dataset_ids df_columns df =
     (if df \<noteq> [] \<and> ''output'' \<notin> set df_columns
      then Inl (KeyError (JString ''output''))
      else dataset_ids_loop df [0..<length df] [])"

text \<open>
  The cell of the notebook that calls it:
  \<open>get_successful_dataset_ids(status_df[status_df["status"] == "completed"])\<close>.
\<close>

definition successful_dataset_ids :: "row list \<Rightarrow> error + json list" where
  "successful_dataset_ids status_df =
     (case completed_rows status_df of
        Inl e \<Rightarrow> Inl e
      | Inr df \<Rightarrow> get_successful_dataset_ids (columns status_df) df)"

section \<open>Example inputs\<close>

text \<open>
  A data platform and a directory used to run the functions on concrete inputs. The
  upload of \<open>a.pdf\<close>, \<open>b.pdf\<close>, \<open>c.pdf\<close> and \<open>d.pdf\<close> succeeds at once, that of
  \<open>flaky.pdf\<close> at the third attempt, that of \<open>down.pdf\<close> never (503), and \<open>missing.pdf\<close>
  is listed but cannot be opened. The run of \<open>f-a\<close> and of \<open>f-d\<close> is completed, that of
  \<open>f-c\<close> is running, the query for \<open>f-b\<close> is always answered with 503, the one for
  \<open>f-flaky\<close> at the third attempt only, and the one for \<open>f-empty\<close> with an empty page.
  The query for \<open>f-late-empty\<close> is answered with 503 first and with an empty page from the
  second attempt on, and the one for \<open>f-norun\<close> with a page whose \<open>total\<close> is 1 and whose
  list of runs is empty.
\<close>

definition ok_response :: "json \<Rightarrow> response" where
  "ok_response j = \<lparr>status_code = 200, body = Some j\<rparr>"

definition unavailable :: response where
  "unavailable = \<lparr>status_code = 503, body = None\<rparr>"

definition example_run :: "string \<Rightarrow> string \<Rightarrow> json \<Rightarrow> json" where
  "example_run run_id st out =
     JObject [(''runId'', JString run_id), (''status'', JString st),
              (''output'', out), (''errors'', JArray [])]"

definition page_of :: "json list \<Rightarrow> json" where
  "page_of runs = JObject [(''total'', JInt (int (length runs))), (''runs'', JArray runs)]"

definition example_post :: "string \<Rightarrow> string \<Rightarrow> json \<Rightarrow> nat \<Rightarrow> response option" where
  "example_post stage_id name ingestion_context n =
     (if name = ''a.pdf'' then Some (ok_response (JObject [(''fileId'', JString ''f-a'')]))
      else if name = ''b.pdf'' then Some (ok_response (JObject [(''fileId'', JString ''f-b'')]))
      else if name = ''c.pdf'' then Some (ok_response (JObject [(''fileId'', JString ''f-c'')]))
      else if name = ''d.pdf'' then Some (ok_response (JObject [(''fileId'', JString ''f-d'')]))
      else if name = ''flaky.pdf'' \<and> 3 \<le> n
        then Some (ok_response (JObject [(''fileId'', JString ''f-flaky'')]))
      else Some unavailable)"

definition example_get :: "string \<Rightarrow> cell \<Rightarrow> nat \<Rightarrow> response option" where
  "example_get transformation_id fid n =
     (if fid = Value (JString ''f-a'')
        then Some (ok_response (page_of
          [example_run ''r-a'' ''completed'' (JObject [(''datasetId'', JString ''d1'')])]))
      else if fid = Value (JString ''f-c'')
        then Some (ok_response (page_of [example_run ''r-c'' ''running'' JNull]))
      else if fid = Value (JString ''f-d'')
        then Some (ok_response (page_of
          [example_run ''r-d'' ''completed'' (JObject [(''datasetId'', JString ''d2'')])]))
      else if fid = Value (JString ''f-flaky'') \<and> 3 \<le> n
        then Some (ok_response (page_of [example_run ''r-f'' ''running'' JNull]))
      else if fid = Value (JString ''f-empty'') then Some (ok_response (page_of []))
      else if fid = Value (JString ''f-late-empty'') \<and> 2 \<le> n
        then Some (ok_response (page_of []))
      else if fid = Value (JString ''f-norun'')
        then Some (ok_response (JObject [(''total'', JInt 1), (''runs'', JArray [])]))
      else Some unavailable)"

definition example_listdir :: "string \<Rightarrow> error + string list" where
  "example_listdir directory_path =
     (if directory_path = ''one'' then Inr [''b.pdf'']
      else if directory_path = ''two'' then Inr [''a.pdf'', ''b.pdf'']
      else if directory_path = ''files_to_upload''
        then Inr [''a.pdf'', ''missing.pdf'', ''down.pdf'', ''c.pdf'', ''d.pdf'']
      else Inl (FileNotFoundError directory_path))"

definition example_platform :: env where
  "example_platform =
     \<lparr>file_exists = (\<lambda>path. path \<noteq> ''files_to_upload/missing.pdf''),
      post_files = example_post,
      get_runs = example_get,
      os_listdir = example_listdir\<rparr>"

definition in_submission_order :: "'a list \<Rightarrow> 'a list" where
  "in_submission_order futures = futures"

text \<open>
  The frames that \<open>ingest_all_documents\<close> returns for the directories \<open>one\<close> and \<open>two\<close>.
\<close>

definition uploaded_row :: "string \<Rightarrow> string \<Rightarrow> row" where
  "uploaded_row file_path fid =
     [(''file_path'', Value (JString file_path)),
      (''file_id'', Value (JString fid)),
      (''status'', Value (JString ''Success'')),
      (''error_type'', Value JNull),
      (''error_message'', Value JNull)]"

definition frame_one :: "row list" where
  "frame_one = [uploaded_row ''one/b.pdf'' ''f-b'']"

definition frame_two :: "row list" where
  "frame_two = [uploaded_row ''two/a.pdf'' ''f-a'', uploaded_row ''two/b.pdf'' ''f-b'']"

text \<open>The merged report of the example of the specification, section 8.\<close>

definition example_report :: "row list" where
  "example_report =
     [[(''status'', Value (JString ''completed'')),
       (''output'', Dumps (JObject [(''datasetId'', JString ''d1'')]))],
      [(''status'', Value (JString ''running'')),
       (''output'', Value JNull)],
      [(''status'', Value (JString ''completed'')),
       (''output'', Dumps (JObject [(''datasetId'', JString ''d2'')]))]]"

text \<open>Whether an attempt raised a failure that the decorator retries.\<close>

definition raises_transient :: "error + 'a \<Rightarrow> bool" where
  "raises_transient outcome =
     (case outcome of Inl e \<Rightarrow> is_RequestException e | Inr _ \<Rightarrow> False)"

text \<open>Whether each of the attempts 1 to \<open>k - 1\<close> raised such a failure.\<close>

definition transient_before :: "(nat \<Rightarrow> error + 'a) \<Rightarrow> nat \<Rightarrow> bool" where
  "transient_before fn k = list_all (\<lambda>j. raises_transient (fn j)) [1..<k]"

section \<open>The namespace-id helper\<close>

text \<open>
  \<^verbatim>\<open>
  const APPLICATION_STORES_NAMESPACE: string = "98215f16-4645-404f-8907-9469d95439e2";
  export const createStoreId = (
    storeName: string,
    namespace: string = APPLICATION_STORES_NAMESPACE,
  ): string => {
    return `${namespace}-${storeName}`
  }
  \<close>
  The optional second parameter is an \<open>option\<close>: \<open>None\<close> is the omitted (or
  \<open>undefined\<close>) argument, for which TypeScript substitutes the default.
\<close>

definition APPLICATION_STORES_NAMESPACE :: string where
  "APPLICATION_STORES_NAMESPACE = ''98215f16-4645-404f-8907-9469d95439e2''"

definition createStoreId :: "string \<Rightarrow> string option \<Rightarrow> string" where
  "createStoreId storeName namespace =
     (let ns = (case namespace of None \<Rightarrow> APPLICATION_STORES_NAMESPACE | Some n \<Rightarrow> n)
      in ns @ ''-'' @ storeName)"

section \<open>The retry loop\<close>

lemma retrying_success: "fn n = Inr v \<Longrightarrow> retrying fn n s = (Inr v, n, s)"
  by simp

lemma retrying_permanent:
  "fn n = Inl e \<Longrightarrow> \<not> is_RequestException e \<Longrightarrow> retrying fn n s = (Inl e, n, s)"
  by (simp add: retry_if_exception_type_def)

lemma retrying_exhausted:
  "fn n = Inl e \<Longrightarrow> is_RequestException e \<Longrightarrow> 3 \<le> n \<Longrightarrow>
   retrying fn n s = (Inl (RetryError e), n, s)"
  by (simp add: retry_if_exception_type_def stop_after_attempt_def)

lemma retrying_again:
  "raises_transient (fn n) \<Longrightarrow> n < 3 \<Longrightarrow>
   retrying fn n s = retrying fn (n + 1) (s @ [wait_exponential 1 2 10 n])"
  by (auto simp: raises_transient_def retry_if_exception_type_def stop_after_attempt_def
      split: sum.splits)

text \<open>
  What a run of the loop leaves behind: it ends at an attempt between the one it started
  with and the third, and it has slept \<open>wait_exponential\<close> of each attempt before the last.
\<close>

lemma retrying_trace:
  "retrying fn n s = (r, k, s') \<Longrightarrow>
   n \<le> k \<and> k \<le> max n 3 \<and> s' = s @ map (wait_exponential 1 2 10) [n..<k]"
proof (induction fn n s rule: retrying.induct)
  case (1 fn n s)
  show ?case
  proof (cases "fn n")
    case (Inr v)
    with "1.prems" show ?thesis by simp
  next
    case (Inl e)
    show ?thesis
    proof (cases "retry_if_exception_type e \<and> \<not> stop_after_attempt 3 n")
      case False
      with Inl "1.prems" show ?thesis by (auto split: if_splits)
    next
      case True
      with Inl "1.prems"
      have rec: "retrying fn (n + 1) (s @ [wait_exponential 1 2 10 n]) = (r, k, s')"
        by simp
      from True have "n < 3" by (simp add: stop_after_attempt_def)
      from "1.IH"[OF Inl _ _ rec] True
      have "n + 1 \<le> k \<and> k \<le> max (n + 1) 3 \<and>
            s' = (s @ [wait_exponential 1 2 10 n]) @ map (wait_exponential 1 2 10) [n + 1..<k]"
        by simp
      with \<open>n < 3\<close> show ?thesis by (auto simp: upt_conv_Cons)
    qed
  qed
qed

text \<open>
  An attempt that is followed by another one raised a transient failure: the loop goes
  on after nothing else.
\<close>

lemma retrying_earlier_transient:
  "retrying fn n s = (r, k, s') \<Longrightarrow> n \<le> j \<Longrightarrow> j < k \<Longrightarrow> raises_transient (fn j)"
proof (induction fn n s rule: retrying.induct)
  case (1 fn n s)
  from "1.prems"(1) have nk: "n \<le> k"
    using retrying_trace by blast
  show ?case
  proof (cases "fn n")
    case (Inr v)
    with "1.prems" show ?thesis by simp
  next
    case (Inl e)
    show ?thesis
    proof (cases "retry_if_exception_type e \<and> \<not> stop_after_attempt 3 n")
      case False
      with Inl "1.prems" show ?thesis by (auto split: if_splits)
    next
      case True
      with Inl "1.prems"(1)
      have rec: "retrying fn (n + 1) (s @ [wait_exponential 1 2 10 n]) = (r, k, s')"
        by simp
      show ?thesis
      proof (cases "j = n")
        case True
        with Inl \<open>retry_if_exception_type e \<and> \<not> stop_after_attempt 3 n\<close> show ?thesis
          by (simp add: raises_transient_def retry_if_exception_type_def)
      next
        case False
        with "1.prems"(2) have "n + 1 \<le> j" by simp
        with "1.IH"[OF Inl _ _ rec] True "1.prems"(3) show ?thesis by simp
      qed
    qed
  qed
qed

declare retrying.simps [simp del]

lemma wait_exponential_1: "wait_exponential 1 2 10 1 = 2"
  by (simp add: wait_exponential_def)

lemma wait_exponential_2: "wait_exponential 1 2 10 2 = 2"
  by (simp add: wait_exponential_def)

lemma retry_trace:
  "1 \<le> fst (snd (retry fn)) \<and> fst (snd (retry fn)) \<le> 3 \<and>
   snd (snd (retry fn)) = map (wait_exponential 1 2 10) [1..<fst (snd (retry fn))]"
  using retrying_trace[of fn 1 "[]" "fst (retry fn)" "fst (snd (retry fn))" "snd (snd (retry fn))"]
  by (simp add: retry_def)

lemma retry_1_success: "fn 1 = Inr v \<Longrightarrow> retry fn = (Inr v, 1, [])"
  by (simp add: retry_def retrying_success)

lemma retry_step_1:
  assumes "raises_transient (fn 1)"
  shows "retry fn = retrying fn 2 [2]"
proof -
  have "retrying fn 1 [] = retrying fn (1 + 1) ([] @ [wait_exponential 1 2 10 1])"
    by (rule retrying_again) (use assms in simp_all)
  also have "\<dots> = retrying fn 2 [2]"
    by (simp only: wait_exponential_1 append_Nil one_add_one)
  finally show ?thesis by (simp only: retry_def)
qed

lemma retry_step_2:
  assumes "raises_transient (fn 1)" and "raises_transient (fn 2)"
  shows "retry fn = retrying fn 3 [2, 2]"
proof -
  have "retrying fn 2 [2] = retrying fn (2 + 1) ([2] @ [wait_exponential 1 2 10 2])"
    by (rule retrying_again) (use assms in simp_all)
  also have "\<dots> = retrying fn 3 [2, 2]"
    by (simp add: wait_exponential_2)
  finally show ?thesis using retry_step_1[of fn] assms(1) by simp
qed

lemma retry_2_success:
  "raises_transient (fn 1) \<Longrightarrow> fn 2 = Inr v \<Longrightarrow> retry fn = (Inr v, 2, [2])"
  by (simp add: retry_step_1 retrying_success)

lemma retry_3_success:
  "raises_transient (fn 1) \<Longrightarrow> raises_transient (fn 2) \<Longrightarrow> fn 3 = Inr v \<Longrightarrow>
   retry fn = (Inr v, 3, [2, 2])"
  by (simp add: retry_step_2 retrying_success)

lemma retry_3_exhausted:
  "raises_transient (fn 1) \<Longrightarrow> raises_transient (fn 2) \<Longrightarrow> fn 3 = Inl e \<Longrightarrow>
   is_RequestException e \<Longrightarrow> retry fn = (Inl (RetryError e), 3, [2, 2])"
  by (simp add: retry_step_2 retrying_exhausted)

lemma retry_permanent:
  "fn 1 = Inl e \<Longrightarrow> \<not> is_RequestException e \<Longrightarrow> retry fn = (Inl e, 1, [])"
  by (simp add: retry_def retrying_permanent)

lemma wait_exponential_formula:
  "wait_exponential 1 2 10 n = max 2 (min 10 (1 * 2 ^ (n - 1)))"
  by (simp add: wait_exponential_def Let_def min.commute)

lemma wait_exponential_bounds:
  "2 \<le> wait_exponential 1 2 10 n \<and> wait_exponential 1 2 10 n \<le> 10"
  by (simp add: wait_exponential_def Let_def)

lemma clamp_mono:
  "(a::int) \<le> b \<Longrightarrow> max (max 0 2) (min a 10) \<le> max (max 0 2) (min b 10)"
  by simp

lemma wait_exponential_mono:
  "m \<le> n \<Longrightarrow> wait_exponential 1 2 10 m \<le> wait_exponential 1 2 10 n"
  unfolding wait_exponential_def Let_def
  by (rule clamp_mono) simp

lemma retry_earlier_transient:
  "1 \<le> j \<Longrightarrow> j < fst (snd (retry fn)) \<Longrightarrow> raises_transient (fn j)"
  using retrying_earlier_transient[of fn 1 "[]" "fst (retry fn)" "fst (snd (retry fn))"
      "snd (snd (retry fn))" j]
  by (simp add: retry_def)

text \<open>
  After transient failures of the attempts before the \<open>k\<close>-th, the loop is at attempt
  \<open>k\<close> and has slept the waits of the attempts before it.
\<close>

lemma transient_before_1: "transient_before fn 1"
  by (simp add: transient_before_def)

lemma transient_before_Suc_0: "transient_before fn (Suc 0)"
  by (simp add: transient_before_def)

lemma transient_before_2: "transient_before fn 2 \<Longrightarrow> raises_transient (fn 1)"
  by (simp add: transient_before_def upt_conv_Cons)

lemma transient_before_3:
  "transient_before fn 3 \<Longrightarrow> raises_transient (fn 1) \<and> raises_transient (fn 2)"
proof -
  have "[1..<3] = [1, 2::nat]" by (simp add: upt_conv_Cons)
  then show "transient_before fn 3 \<Longrightarrow> raises_transient (fn 1) \<and> raises_transient (fn 2)"
    by (simp add: transient_before_def)
qed

lemma waits_upto_1: "map (wait_exponential 1 2 10) [1..<1] = []"
  by simp

lemma waits_upto_2: "map (wait_exponential 1 2 10) [1..<2] = [2]"
proof -
  have "[1..<2] = [1::nat]" by (simp add: upt_conv_Cons)
  then show ?thesis by (simp only: list.map wait_exponential_1)
qed

lemma waits_upto_3: "map (wait_exponential 1 2 10) [1..<3] = [2, 2]"
proof -
  have "[1..<3] = [1, 2::nat]" by (simp add: upt_conv_Cons)
  then show ?thesis by (simp only: list.map wait_exponential_1 wait_exponential_2)
qed

lemma retry_after_transient:
  assumes "1 \<le> k" and "k \<le> 3" and "transient_before fn k"
  shows "retry fn = retrying fn k (map (wait_exponential 1 2 10) [1..<k])"
proof -
  from assms(1,2) consider "k = 1" | "k = 2" | "k = 3" by linarith
  then show ?thesis
  proof cases
    case 1
    then show ?thesis by (simp only: waits_upto_1 retry_def)
  next
    case 2
    with assms(3) have "raises_transient (fn 1)" by (simp only: transient_before_2)
    then have "retry fn = retrying fn 2 [2]" by (rule retry_step_1)
    with 2 show ?thesis by (simp only: waits_upto_2)
  next
    case 3
    with assms(3) have "raises_transient (fn 1)" and "raises_transient (fn 2)"
      using transient_before_3 by blast+
    then have "retry fn = retrying fn 3 [2, 2]" by (rule retry_step_2)
    with 3 show ?thesis by (simp only: waits_upto_3)
  qed
qed

lemma retry_success_at:
  assumes "1 \<le> k" and "k \<le> 3" and "transient_before fn k" and "fn k = Inr v"
  shows "retry fn = (Inr v, k, map (wait_exponential 1 2 10) [1..<k])"
proof -
  have "retry fn = retrying fn k (map (wait_exponential 1 2 10) [1..<k])"
    using assms(1,2,3) by (rule retry_after_transient)
  also have "\<dots> = (Inr v, k, map (wait_exponential 1 2 10) [1..<k])"
    using assms(4) by (rule retrying_success)
  finally show ?thesis .
qed

lemma retry_permanent_at:
  assumes "1 \<le> k" and "k \<le> 3" and "transient_before fn k" and "fn k = Inl e"
    and "\<not> is_RequestException e"
  shows "retry fn = (Inl e, k, map (wait_exponential 1 2 10) [1..<k])"
proof -
  have "retry fn = retrying fn k (map (wait_exponential 1 2 10) [1..<k])"
    using assms(1,2,3) by (rule retry_after_transient)
  also have "\<dots> = (Inl e, k, map (wait_exponential 1 2 10) [1..<k])"
    using assms(4,5) by (rule retrying_permanent)
  finally show ?thesis .
qed

lemma waits_from_Suc_0_upto_2: "map (wait_exponential 1 2 10) [Suc 0..<2] = [2]"
  using waits_upto_2 by simp

lemma waits_from_Suc_0_upto_3: "map (wait_exponential 1 2 10) [Suc 0..<3] = [2, 2]"
  using waits_upto_3 by simp

lemma retry_transient_goes_on:
  assumes "1 \<le> k" and "k < 3" and "transient_before fn k" and "raises_transient (fn k)"
  shows "k < fst (snd (retry fn))"
proof -
  obtain r m s' where res: "retry fn = (r, m, s')"
    by (cases "retry fn") auto
  from assms(1,2,3)
  have "retry fn = retrying fn k (map (wait_exponential 1 2 10) [1..<k])"
    by (intro retry_after_transient) simp_all
  also from assms(4,2)
  have "\<dots> = retrying fn (k + 1)
      (map (wait_exponential 1 2 10) [1..<k] @ [wait_exponential 1 2 10 k])"
    by (rule retrying_again)
  finally have "retrying fn (k + 1)
      (map (wait_exponential 1 2 10) [1..<k] @ [wait_exponential 1 2 10 k]) = (r, m, s')"
    using res by simp
  then have "k + 1 \<le> m" using retrying_trace by blast
  with res show ?thesis by simp
qed

text \<open>What one call of the status query does, by the answer of the platform.\<close>

lemma check_status_body_http_error:
  "get_runs w tid fid n = Some r \<Longrightarrow> 400 \<le> status_code r \<Longrightarrow> status_code r < 600 \<Longrightarrow>
   check_status_of_ingestion_body w tid fid n = Inl (HTTPError (status_code r))"
  by (simp add: check_status_of_ingestion_body_def request_def raise_for_status_def)

lemma check_status_body_empty_page:
  "get_runs w tid fid n = Some r \<Longrightarrow> \<not> (400 \<le> status_code r \<and> status_code r < 600) \<Longrightarrow>
   body r = Some page \<Longrightarrow> getitem page ''total'' = Inr (JInt t) \<Longrightarrow> t \<le> 0 \<Longrightarrow>
   check_status_of_ingestion_body w tid fid n = Inl AssertionError"
  by (simp add: check_status_of_ingestion_body_def request_def raise_for_status_def
      response_json_def)

lemma check_status_body_first_run:
  "get_runs w tid fid n = Some r \<Longrightarrow> \<not> (400 \<le> status_code r \<and> status_code r < 600) \<Longrightarrow>
   body r = Some page \<Longrightarrow> getitem page ''total'' = Inr (JInt t) \<Longrightarrow> 0 < t \<Longrightarrow>
   getitem page ''runs'' = Inr (JArray (run # rest)) \<Longrightarrow>
   check_status_of_ingestion_body w tid fid n = Inr run"
  by (simp add: check_status_of_ingestion_body_def request_def raise_for_status_def
      response_json_def)

lemma check_status_body_no_run:
  "get_runs w tid fid n = Some r \<Longrightarrow> \<not> (400 \<le> status_code r \<and> status_code r < 600) \<Longrightarrow>
   body r = Some page \<Longrightarrow> getitem page ''total'' = Inr (JInt t) \<Longrightarrow> 0 < t \<Longrightarrow>
   getitem page ''runs'' = Inr (JArray []) \<Longrightarrow>
   check_status_of_ingestion_body w tid fid n = Inl IndexError"
  by (simp add: check_status_of_ingestion_body_def request_def raise_for_status_def
      response_json_def)

lemma ingest_document_body_missing_file:
  "\<not> file_exists w document_path \<Longrightarrow>
   ingest_document_body w document_path ingestion_context name stage_id n =
     Inl (FileNotFoundError document_path)"
  by (simp add: ingest_document_body_def)

section \<open>The claims about the retried operations\<close>

text \<open>
  Claim C3, as amended. For both retried operations, which are \<open>retry\<close> applied to their
  bodies: the result of the first successful attempt is returned at once, with no further
  attempt; no run makes more than 3 attempts; and when each of the 3 attempts raises a
  transient failure, the caller gets tenacity's \<open>RetryError\<close> that carries the failure of
  the third attempt (not that failure itself), after exactly 3 attempts.
\<close>

theorem retry_first_success_or_RetryError:
  "(fn 1 = Inr v \<longrightarrow> retry fn = (Inr v, 1, [])) \<and>
   (raises_transient (fn 1) \<and> fn 2 = Inr v \<longrightarrow> retry fn = (Inr v, 2, [2])) \<and>
   (raises_transient (fn 1) \<and> raises_transient (fn 2) \<and> fn 3 = Inr v \<longrightarrow>
      retry fn = (Inr v, 3, [2, 2])) \<and>
   (raises_transient (fn 1) \<and> raises_transient (fn 2) \<and> fn 3 = Inl e \<and> is_RequestException e \<longrightarrow>
      retry fn = (Inl (RetryError e), 3, [2, 2])) \<and>
   fst (snd (retry fn)) \<le> 3 \<and>
   ingest_document w document_path ingestion_context name stage_id =
     retry (ingest_document_body w document_path ingestion_context name stage_id) \<and>
   check_status_of_ingestion w transformation_id fid =
     retry (check_status_of_ingestion_body w transformation_id fid)"
  by (simp add: retry_1_success retry_2_success retry_3_success retry_3_exhausted retry_trace
      ingest_document_def check_status_of_ingestion_def)

theorem retry_first_success_or_RetryError_witness:
  "ingest_document example_platform ''files_to_upload/flaky.pdf'' JNull ''flaky.pdf'' ''s'' =
     (Inr (JObject [(''file_id'', JString ''f-flaky''), (''status'', JString ''Success''),
                    (''error_type'', JNull), (''error_message'', JNull)]), 3, [2, 2]) \<and>
   ingest_document example_platform ''files_to_upload/down.pdf'' JNull ''down.pdf'' ''s'' =
     (Inl (RetryError (HTTPError 503)), 3, [2, 2]) \<and>
   ingest_document example_platform ''files_to_upload/a.pdf'' JNull ''a.pdf'' ''s'' =
     (Inr (JObject [(''file_id'', JString ''f-a''), (''status'', JString ''Success''),
                    (''error_type'', JNull), (''error_message'', JNull)]), 1, [])"
  using
    retry_first_success_or_RetryError[of
      "ingest_document_body example_platform ''files_to_upload/flaky.pdf'' JNull ''flaky.pdf'' ''s''"
      "JObject [(''file_id'', JString ''f-flaky''), (''status'', JString ''Success''),
                (''error_type'', JNull), (''error_message'', JNull)]"
      "HTTPError 503" example_platform "''files_to_upload/flaky.pdf''" JNull "''flaky.pdf''" "''s''"]
    retry_first_success_or_RetryError[of
      "ingest_document_body example_platform ''files_to_upload/down.pdf'' JNull ''down.pdf'' ''s''"
      "JNull" "HTTPError 503" example_platform "''files_to_upload/down.pdf''" JNull
      "''down.pdf''" "''s''"]
    retry_first_success_or_RetryError[of
      "ingest_document_body example_platform ''files_to_upload/a.pdf'' JNull ''a.pdf'' ''s''"
      "JObject [(''file_id'', JString ''f-a''), (''status'', JString ''Success''),
                (''error_type'', JNull), (''error_message'', JNull)]"
      "HTTPError 503" example_platform "''files_to_upload/a.pdf''" JNull "''a.pdf''" "''s''"]
  by (simp add: ingest_document_body_def example_platform_def example_post_def request_def
      raise_for_status_def response_json_def ok_response_def unavailable_def
      raises_transient_def)

theorem retry_surfaces_RetryError_counterexample:
  "check_status_of_ingestion example_platform ''t'' (Value (JString ''f-b'')) =
     (Inl (RetryError (HTTPError 503)), 3, [2, 2]) \<and>
   fst (check_status_of_ingestion example_platform ''t'' (Value (JString ''f-b''))) \<noteq>
     Inl (HTTPError 503)"
  by code_simp

text \<open>
  Claim C4, as amended. The delays slept by a run of the retry loop are
  \<open>wait_exponential\<close> of the attempts before the last one, in order; the delay after
  attempt \<open>n\<close> is \<open>min(10, 1 * 2^(n-1))\<close> raised to the floor 2, so it lies between 2 and
  10 and does not decrease from one attempt to the next. In a run that fails on attempts 1
  and 2 and succeeds on attempt 3 the two delays are both 2: equal at the floor, not
  increasing.
\<close>

theorem retry_waits_clamped_nondecreasing:
  "snd (snd (retry fn)) = map (wait_exponential 1 2 10) [1..<fst (snd (retry fn))] \<and>
   wait_exponential 1 2 10 n = max 2 (min 10 (1 * 2 ^ (n - 1))) \<and>
   2 \<le> wait_exponential 1 2 10 n \<and> wait_exponential 1 2 10 n \<le> 10 \<and>
   (m \<le> n \<longrightarrow> wait_exponential 1 2 10 m \<le> wait_exponential 1 2 10 n) \<and>
   (raises_transient (fn 1) \<and> raises_transient (fn 2) \<and> fn 3 = Inr v \<longrightarrow>
      retry fn = (Inr v, 3, [wait_exponential 1 2 10 1, wait_exponential 1 2 10 2]) \<and>
      wait_exponential 1 2 10 1 = 2 \<and> wait_exponential 1 2 10 2 = 2)"
  using retry_trace[of fn] wait_exponential_bounds[of n] wait_exponential_mono[of m n]
    retry_3_success[of fn v]
  by (simp add: wait_exponential_formula wait_exponential_1 wait_exponential_2)

theorem retry_waits_clamped_nondecreasing_witness:
  "check_status_of_ingestion example_platform ''t'' (Value (JString ''f-flaky'')) =
     (Inr (example_run ''r-f'' ''running'' JNull), 3, [2, 2]) \<and>
   wait_exponential 1 2 10 1 \<le> wait_exponential 1 2 10 2 \<and>
   wait_exponential 1 2 10 3 = 4 \<and> wait_exponential 1 2 10 4 = 8 \<and>
   wait_exponential 1 2 10 5 = 10"
  using
    retry_waits_clamped_nondecreasing[of
      "check_status_of_ingestion_body example_platform ''t'' (Value (JString ''f-flaky''))"
      1 2 "example_run ''r-f'' ''running'' JNull"]
    retry_waits_clamped_nondecreasing[of
      "check_status_of_ingestion_body example_platform ''t'' (Value (JString ''f-flaky''))"
      3 3 "example_run ''r-f'' ''running'' JNull"]
    retry_waits_clamped_nondecreasing[of
      "check_status_of_ingestion_body example_platform ''t'' (Value (JString ''f-flaky''))"
      4 4 "example_run ''r-f'' ''running'' JNull"]
    retry_waits_clamped_nondecreasing[of
      "check_status_of_ingestion_body example_platform ''t'' (Value (JString ''f-flaky''))"
      5 5 "example_run ''r-f'' ''running'' JNull"]
  by (simp add: check_status_of_ingestion_def check_status_of_ingestion_body_def
      example_platform_def example_get_def request_def raise_for_status_def response_json_def
      ok_response_def unavailable_def page_of_def raises_transient_def)

theorem retry_waits_not_increasing_counterexample:
  "snd (snd (check_status_of_ingestion example_platform ''t'' (Value (JString ''f-flaky'')))) =
     [wait_exponential 1 2 10 1, wait_exponential 1 2 10 2] \<and>
   \<not> (wait_exponential 1 2 10 1 < wait_exponential 1 2 10 2 \<or>
      wait_exponential 1 2 10 1 = wait_exponential 1 2 10 2 \<and> wait_exponential 1 2 10 2 = 10)"
  by code_simp

text \<open>
  Claim C5, as amended. In \<open>check_status_of_ingestion\<close>, let attempt \<open>k\<close> (1 to 3) be
  reached after transient failures of the attempts before it. When its answer has a
  status from 400 to 599, the failure is transient: another attempt follows while \<open>k\<close> is
  below 3, and at the third attempt the operation ends with a \<open>RetryError\<close>. When its
  answer is an empty page (\<open>total\<close> not above 0), the assertion fails: the
  \<open>AssertionError\<close> is no \<open>RequestException\<close>, it is not retried, and it reaches the caller
  with attempt \<open>k\<close> as the last one (exactly 1 attempt when the empty page is the first
  answer). When its answer is a page with \<open>total > 0\<close>, the first run of the page is
  returned with no further attempt if the list of runs is not empty, and the \<open>IndexError\<close>
  of \<open>runs[0]\<close> reaches the caller, not retried, if it is empty.
\<close>

theorem check_status_of_ingestion_empty_page_not_retried:
  assumes "1 \<le> k" and "k \<le> 3"
    and "transient_before (check_status_of_ingestion_body w tid fid) k"
    and "get_runs w tid fid k = Some r"
  shows
  "(400 \<le> status_code r \<and> status_code r < 600 \<and> k < 3 \<longrightarrow>
      k < fst (snd (check_status_of_ingestion w tid fid))) \<and>
   (400 \<le> status_code r \<and> status_code r < 600 \<and> k = 3 \<longrightarrow>
      check_status_of_ingestion w tid fid =
        (Inl (RetryError (HTTPError (status_code r))), 3, [2, 2])) \<and>
   (\<not> (400 \<le> status_code r \<and> status_code r < 600) \<and> body r = Some page \<and>
    getitem page ''total'' = Inr (JInt t) \<and> t \<le> 0 \<longrightarrow>
      check_status_of_ingestion w tid fid =
        (Inl AssertionError, k, map (wait_exponential 1 2 10) [1..<k]) \<and>
      \<not> retry_if_exception_type AssertionError) \<and>
   (\<not> (400 \<le> status_code r \<and> status_code r < 600) \<and> body r = Some page \<and>
    getitem page ''total'' = Inr (JInt t) \<and> 0 < t \<and>
    getitem page ''runs'' = Inr (JArray (run # rest)) \<longrightarrow>
      check_status_of_ingestion w tid fid =
        (Inr run, k, map (wait_exponential 1 2 10) [1..<k])) \<and>
   (\<not> (400 \<le> status_code r \<and> status_code r < 600) \<and> body r = Some page \<and>
    getitem page ''total'' = Inr (JInt t) \<and> 0 < t \<and>
    getitem page ''runs'' = Inr (JArray []) \<longrightarrow>
      check_status_of_ingestion w tid fid =
        (Inl IndexError, k, map (wait_exponential 1 2 10) [1..<k]) \<and>
      \<not> retry_if_exception_type IndexError)"
proof (intro conjI impI)
  assume a: "400 \<le> status_code r \<and> status_code r < 600 \<and> k < 3"
  with assms(4)
  have "check_status_of_ingestion_body w tid fid k = Inl (HTTPError (status_code r))"
    by (simp add: check_status_body_http_error)
  then have "raises_transient (check_status_of_ingestion_body w tid fid k)"
    by (simp add: raises_transient_def)
  with assms(1,3) a show "k < fst (snd (check_status_of_ingestion w tid fid))"
    unfolding check_status_of_ingestion_def by (intro retry_transient_goes_on) simp_all
next
  assume a: "400 \<le> status_code r \<and> status_code r < 600 \<and> k = 3"
  with assms(4)
  have b: "check_status_of_ingestion_body w tid fid 3 = Inl (HTTPError (status_code r))"
    by (simp add: check_status_body_http_error)
  from a assms(3)
  have "check_status_of_ingestion w tid fid =
      retrying (check_status_of_ingestion_body w tid fid) 3 [2, 2]"
    unfolding check_status_of_ingestion_def
    using retry_after_transient[of 3 "check_status_of_ingestion_body w tid fid"]
    by (simp only: waits_upto_3)
  also have "\<dots> = (Inl (RetryError (HTTPError (status_code r))), 3, [2, 2])"
    using b by (intro retrying_exhausted) simp_all
  finally show "check_status_of_ingestion w tid fid =
      (Inl (RetryError (HTTPError (status_code r))), 3, [2, 2])" .
next
  assume a: "\<not> (400 \<le> status_code r \<and> status_code r < 600) \<and> body r = Some page \<and>
    getitem page ''total'' = Inr (JInt t) \<and> t \<le> 0"
  with assms(4) have "check_status_of_ingestion_body w tid fid k = Inl AssertionError"
    using check_status_body_empty_page[of w tid fid k r page t] by blast
  with assms(1,2,3) show "check_status_of_ingestion w tid fid =
      (Inl AssertionError, k, map (wait_exponential 1 2 10) [1..<k])"
    unfolding check_status_of_ingestion_def by (intro retry_permanent_at) simp_all
  show "\<not> retry_if_exception_type AssertionError"
    by (simp add: retry_if_exception_type_def)
next
  assume a: "\<not> (400 \<le> status_code r \<and> status_code r < 600) \<and> body r = Some page \<and>
    getitem page ''total'' = Inr (JInt t) \<and> 0 < t \<and>
    getitem page ''runs'' = Inr (JArray (run # rest))"
  with assms(4) have "check_status_of_ingestion_body w tid fid k = Inr run"
    using check_status_body_first_run[of w tid fid k r page t run rest] by blast
  with assms(1,2,3) show "check_status_of_ingestion w tid fid =
      (Inr run, k, map (wait_exponential 1 2 10) [1..<k])"
    unfolding check_status_of_ingestion_def by (intro retry_success_at) simp_all
next
  assume a: "\<not> (400 \<le> status_code r \<and> status_code r < 600) \<and> body r = Some page \<and>
    getitem page ''total'' = Inr (JInt t) \<and> 0 < t \<and>
    getitem page ''runs'' = Inr (JArray [])"
  with assms(4) have "check_status_of_ingestion_body w tid fid k = Inl IndexError"
    using check_status_body_no_run[of w tid fid k r page t] by blast
  with assms(1,2,3) show "check_status_of_ingestion w tid fid =
      (Inl IndexError, k, map (wait_exponential 1 2 10) [1..<k])"
    unfolding check_status_of_ingestion_def by (intro retry_permanent_at) simp_all
  show "\<not> retry_if_exception_type IndexError"
    by (simp add: retry_if_exception_type_def)
qed

lemma example_platform_get_runs: "get_runs example_platform = example_get"
  by (simp add: example_platform_def)

lemma example_platform_file_exists:
  "file_exists example_platform path = (path \<noteq> ''files_to_upload/missing.pdf'')"
  by (simp add: example_platform_def)

lemma example_transient_before:
  "transient_before
     (check_status_of_ingestion_body example_platform ''t'' (Value (JString ''f-late-empty''))) 2 \<and>
   transient_before
     (check_status_of_ingestion_body example_platform ''t'' (Value (JString ''f-flaky''))) 3 \<and>
   transient_before
     (check_status_of_ingestion_body example_platform ''t'' (Value (JString ''f-b''))) 2 \<and>
   transient_before
     (check_status_of_ingestion_body example_platform ''t'' (Value (JString ''f-b''))) 3"
  by code_simp

theorem check_status_of_ingestion_empty_page_not_retried_witness:
  "check_status_of_ingestion example_platform ''t'' (Value (JString ''f-empty'')) =
     (Inl AssertionError, 1, []) \<and>
   check_status_of_ingestion example_platform ''t'' (Value (JString ''f-late-empty'')) =
     (Inl AssertionError, 2, [2]) \<and>
   2 < fst (snd (check_status_of_ingestion example_platform ''t'' (Value (JString ''f-b'')))) \<and>
   check_status_of_ingestion example_platform ''t'' (Value (JString ''f-b'')) =
     (Inl (RetryError (HTTPError 503)), 3, [2, 2]) \<and>
   check_status_of_ingestion example_platform ''t'' (Value (JString ''f-c'')) =
     (Inr (example_run ''r-c'' ''running'' JNull), 1, []) \<and>
   check_status_of_ingestion example_platform ''t'' (Value (JString ''f-flaky'')) =
     (Inr (example_run ''r-f'' ''running'' JNull), 3, [2, 2]) \<and>
   check_status_of_ingestion example_platform ''t'' (Value (JString ''f-norun'')) =
     (Inl IndexError, 1, [])"
proof -
  note answers = example_platform_get_runs example_get_def ok_response_def unavailable_def
    page_of_def transient_before_Suc_0 waits_from_Suc_0_upto_2 waits_from_Suc_0_upto_3
  have empty_first:
    "check_status_of_ingestion example_platform ''t'' (Value (JString ''f-empty'')) =
       (Inl AssertionError, 1, [])"
    using check_status_of_ingestion_empty_page_not_retried[of 1 example_platform "''t''"
      "Value (JString ''f-empty'')" "ok_response (page_of [])" "page_of []" 0 JNull "[]"]
    by (simp add: answers)
  have empty_second:
    "check_status_of_ingestion example_platform ''t'' (Value (JString ''f-late-empty'')) =
       (Inl AssertionError, 2, [2])"
    using check_status_of_ingestion_empty_page_not_retried[of 2 example_platform "''t''"
      "Value (JString ''f-late-empty'')" "ok_response (page_of [])" "page_of []" 0 JNull "[]"]
      example_transient_before
    by (simp add: answers)
  have goes_on:
    "2 < fst (snd (check_status_of_ingestion example_platform ''t'' (Value (JString ''f-b''))))"
    using check_status_of_ingestion_empty_page_not_retried[of 2 example_platform "''t''"
      "Value (JString ''f-b'')" unavailable JNull 0 JNull "[]"]
      example_transient_before
    by (simp add: answers)
  have exhausted:
    "check_status_of_ingestion example_platform ''t'' (Value (JString ''f-b'')) =
       (Inl (RetryError (HTTPError 503)), 3, [2, 2])"
    using check_status_of_ingestion_empty_page_not_retried[of 3 example_platform "''t''"
      "Value (JString ''f-b'')" unavailable JNull 0 JNull "[]"]
      example_transient_before
    by (simp add: answers)
  have first_run:
    "check_status_of_ingestion example_platform ''t'' (Value (JString ''f-c'')) =
       (Inr (example_run ''r-c'' ''running'' JNull), 1, [])"
    using check_status_of_ingestion_empty_page_not_retried[of 1 example_platform "''t''"
      "Value (JString ''f-c'')" "ok_response (page_of [example_run ''r-c'' ''running'' JNull])"
      "page_of [example_run ''r-c'' ''running'' JNull]" 1
      "example_run ''r-c'' ''running'' JNull" "[]"]
    by (simp add: answers)
  have third_run:
    "check_status_of_ingestion example_platform ''t'' (Value (JString ''f-flaky'')) =
       (Inr (example_run ''r-f'' ''running'' JNull), 3, [2, 2])"
    using check_status_of_ingestion_empty_page_not_retried[of 3 example_platform "''t''"
      "Value (JString ''f-flaky'')" "ok_response (page_of [example_run ''r-f'' ''running'' JNull])"
      "page_of [example_run ''r-f'' ''running'' JNull]" 1
      "example_run ''r-f'' ''running'' JNull" "[]"]
      example_transient_before
    by (simp add: answers)
  have no_run:
    "check_status_of_ingestion example_platform ''t'' (Value (JString ''f-norun'')) =
       (Inl IndexError, 1, [])"
    using check_status_of_ingestion_empty_page_not_retried[of 1 example_platform "''t''"
      "Value (JString ''f-norun'')"
      "ok_response (JObject [(''total'', JInt 1), (''runs'', JArray [])])"
      "JObject [(''total'', JInt 1), (''runs'', JArray [])]" 1 JNull "[]"]
    by (simp add: answers)
  from empty_first empty_second goes_on exhausted first_run third_run no_run
  show ?thesis by (intro conjI)
qed

theorem empty_page_not_retried_counterexample:
  "check_status_of_ingestion example_platform ''t'' (Value (JString ''f-empty'')) =
     (Inl AssertionError, 1, []) \<and>
   \<not> retry_if_exception_type AssertionError \<and>
   fst (snd (check_status_of_ingestion example_platform ''t'' (Value (JString ''f-b'')))) = 3"
  by code_simp

text \<open>
  Claim C6, as amended. A failure that is no \<open>RequestException\<close> is not retried: the
  attempt that raises it is the last one, and the failure reaches the caller as it is. No
  attempt that is followed by another one raised anything but a transient failure. The
  failure comes after exactly 1 attempt and no wait when the first attempt raises it, as
  the \<open>FileNotFoundError\<close> of \<open>ingest_document\<close> for a missing local file always does;
  when the attempts before the \<open>k\<close>-th (\<open>k\<close> at most 3) failed transiently and attempt
  \<open>k\<close> raises it, as the \<open>AssertionError\<close> of \<open>check_status_of_ingestion\<close> for an empty
  page may, it comes after \<open>k\<close> attempts and the waits between them.
\<close>

theorem permanent_failure_not_retried:
  "(1 \<le> k \<and> k \<le> 3 \<and> transient_before fn k \<and> fn k = Inl e \<and> \<not> is_RequestException e \<longrightarrow>
      retry fn = (Inl e, k, map (wait_exponential 1 2 10) [1..<k])) \<and>
   (fn 1 = Inl e \<and> \<not> is_RequestException e \<longrightarrow> retry fn = (Inl e, 1, [])) \<and>
   (1 \<le> j \<and> j < fst (snd (retry fn)) \<longrightarrow> raises_transient (fn j)) \<and>
   (\<not> file_exists w document_path \<longrightarrow>
      ingest_document w document_path ingestion_context name stage_id =
        (Inl (FileNotFoundError document_path), 1, [])) \<and>
   (1 \<le> k \<and> k \<le> 3 \<and> transient_before (check_status_of_ingestion_body w tid fid) k \<and>
    get_runs w tid fid k = Some r \<and> \<not> (400 \<le> status_code r \<and> status_code r < 600) \<and>
    body r = Some (JObject kvs) \<and> map_of kvs ''total'' = Some (JInt 0) \<longrightarrow>
      check_status_of_ingestion w tid fid =
        (Inl AssertionError, k, map (wait_exponential 1 2 10) [1..<k]))"
proof (intro conjI impI)
  assume "1 \<le> k \<and> k \<le> 3 \<and> transient_before fn k \<and> fn k = Inl e \<and> \<not> is_RequestException e"
  then show "retry fn = (Inl e, k, map (wait_exponential 1 2 10) [1..<k])"
    by (intro retry_permanent_at) simp_all
next
  assume "fn 1 = Inl e \<and> \<not> is_RequestException e"
  then show "retry fn = (Inl e, 1, [])"
    by (simp add: retry_permanent)
next
  assume "1 \<le> j \<and> j < fst (snd (retry fn))"
  then show "raises_transient (fn j)"
    using retry_earlier_transient[of j fn] by blast
next
  assume "\<not> file_exists w document_path"
  then have "ingest_document_body w document_path ingestion_context name stage_id 1 =
      Inl (FileNotFoundError document_path)"
    by (rule ingest_document_body_missing_file)
  then show "ingest_document w document_path ingestion_context name stage_id =
      (Inl (FileNotFoundError document_path), 1, [])"
    by (simp add: ingest_document_def retry_permanent)
next
  assume a: "1 \<le> k \<and> k \<le> 3 \<and> transient_before (check_status_of_ingestion_body w tid fid) k \<and>
    get_runs w tid fid k = Some r \<and> \<not> (400 \<le> status_code r \<and> status_code r < 600) \<and>
    body r = Some (JObject kvs) \<and> map_of kvs ''total'' = Some (JInt 0)"
  then have "check_status_of_ingestion_body w tid fid k = Inl AssertionError"
    using check_status_body_empty_page[of w tid fid k r "JObject kvs" 0] by simp
  with a show "check_status_of_ingestion w tid fid =
      (Inl AssertionError, k, map (wait_exponential 1 2 10) [1..<k])"
    unfolding check_status_of_ingestion_def by (intro retry_permanent_at) simp_all
qed

lemma example_late_empty_transient_before:
  "transient_before
     (check_status_of_ingestion_body example_platform ''t'' (Value (JString ''f-late-empty''))) 2 \<and>
   check_status_of_ingestion_body example_platform ''t'' (Value (JString ''f-late-empty'')) 2 =
     Inl AssertionError \<and>
   fst (snd (check_status_of_ingestion example_platform ''t'' (Value (JString ''f-flaky'')))) = 3"
  by code_simp

theorem permanent_failure_not_retried_witness:
  "ingest_document example_platform ''files_to_upload/missing.pdf'' JNull ''missing.pdf'' ''s'' =
     (Inl (FileNotFoundError ''files_to_upload/missing.pdf''), 1, []) \<and>
   check_status_of_ingestion example_platform ''t'' (Value (JString ''f-late-empty'')) =
     (Inl AssertionError, 2, [2]) \<and>
   retry (check_status_of_ingestion_body example_platform ''t'' (Value (JString ''f-late-empty''))) =
     (Inl AssertionError, 2, [2]) \<and>
   raises_transient
     (check_status_of_ingestion_body example_platform ''t'' (Value (JString ''f-flaky'')) 2)"
  using
    permanent_failure_not_retried[of 2
      "check_status_of_ingestion_body example_platform ''t'' (Value (JString ''f-late-empty''))"
      AssertionError 2 example_platform "''files_to_upload/missing.pdf''" JNull
      "''missing.pdf''" "''s''" "''t''" "Value (JString ''f-late-empty'')"
      "ok_response (page_of [])" "[(''total'', JInt 0), (''runs'', JArray [])]"]
    permanent_failure_not_retried[of 2
      "check_status_of_ingestion_body example_platform ''t'' (Value (JString ''f-flaky''))"
      AssertionError 2 example_platform "''files_to_upload/missing.pdf''" JNull
      "''missing.pdf''" "''s''" "''t''" "Value (JString ''f-late-empty'')"
      "ok_response (page_of [])" "[(''total'', JInt 0), (''runs'', JArray [])]"]
    example_late_empty_transient_before
  by (simp add: example_platform_get_runs example_platform_file_exists example_get_def
      ok_response_def page_of_def waits_from_Suc_0_upto_2 check_status_of_ingestion_def)

theorem permanent_failure_after_two_attempts_counterexample:
  "check_status_of_ingestion example_platform ''t'' (Value (JString ''f-late-empty'')) =
     (Inl AssertionError, 2, [2]) \<and>
   \<not> retry_if_exception_type AssertionError \<and>
   fst (snd (check_status_of_ingestion example_platform ''t'' (Value (JString ''f-late-empty''))))
     \<noteq> 1"
  by code_simp

section \<open>The claims about the two phases\<close>

text \<open>
  Phase 1 gives one row for each listed file, whatever the order of completion: an
  exception of \<open>ingest_document\<close> becomes the row of a failed ingestion.
\<close>

lemma ingest_loop_body_file_path:
  "column (ingest_loop_body file_path future) ''file_path'' = Value (JString file_path)"
  by (auto simp: ingest_loop_body_def ingested_row_def ingestion_failed_row_def column_def
      split: sum.splits)

lemma ingest_loop_body_failure:
  "ingest_loop_body file_path (Inl e) = ingestion_failed_row file_path e"
  by (simp add: ingest_loop_body_def)

lemma ingest_all_documents_one_row_per_file:
  assumes "0 < max_workers" and "os_listdir w directory_path = Inr files"
    and "\<And>futures. mset (as_completed futures) = mset futures"
  shows "\<exists>rows.
    ingest_all_documents w as_completed directory_path ingestion_context stage_id max_workers =
      Inr rows \<and>
    length rows = length files \<and>
    mset (map (\<lambda>r. column r ''file_path'') rows) =
      mset (map (\<lambda>file. Value (JString (os_path_join directory_path file))) files)"
proof -
  define future_to_file where "future_to_file =
    map (\<lambda>file. (fst (ingest_document w (os_path_join directory_path file)
                     ingestion_context file stage_id), file)) files"
  define body where "body = (\<lambda>(future, file_name).
    ingest_loop_body (os_path_join directory_path file_name) (future :: error + json))"
  define rows where "rows = map body (as_completed future_to_file)"
  have result: "ingest_all_documents w as_completed directory_path ingestion_context stage_id
      max_workers = Inr rows"
    using assms(1,2)
    by (simp add: ingest_all_documents_def rows_def body_def future_to_file_def)
  have "size (mset (as_completed future_to_file)) = size (mset future_to_file)"
    by (simp only: assms(3))
  then have len: "length rows = length files"
    by (simp add: rows_def future_to_file_def)
  have path: "column (body p) ''file_path'' = Value (JString (os_path_join directory_path (snd p)))"
    for p
    by (cases p) (simp add: body_def ingest_loop_body_file_path)
  have "mset (map (\<lambda>r. column r ''file_path'') rows) =
      image_mset (\<lambda>p. column (body p) ''file_path'') (mset (as_completed future_to_file))"
    by (simp add: rows_def comp_def)
  also have "\<dots> = image_mset (\<lambda>p. column (body p) ''file_path'') (mset future_to_file)"
    by (simp only: assms(3))
  also have "\<dots> = mset (map (\<lambda>file. Value (JString (os_path_join directory_path file))) files)"
    by (simp add: future_to_file_def path multiset.map_comp comp_def)
  finally show ?thesis using result len by blast
qed

text \<open>
  Claim C1. The phase-2 driver does not keep every error inside the report: with the
  frame of the directory \<open>one\<close>, whose only upload succeeded, and a status query that
  fails at every attempt, the first future to complete raises, the handler reads the
  unbound \<open>run\<close>, and \<open>check_files_status\<close> raises \<open>UnboundLocalError\<close> instead of
  returning a report with a row for the item.
\<close>

theorem check_files_status_first_failure_propagates:
  "ingest_all_documents example_platform in_submission_order ''one'' JNull ''s'' 3 =
     Inr frame_one \<and>
   fst (check_status_of_ingestion example_platform ''t'' (Value (JString ''f-b''))) =
     Inl (RetryError (HTTPError 503)) \<and>
   check_files_status example_platform in_submission_order ''t'' frame_one 3 =
     Inl (UnboundLocalError ''run'')"
  by code_simp

text \<open>
  Claim C2. In the loop of \<open>check_files_status\<close>, the handler of a future that raised
  takes the status of its row from \<open>run\<close>, the result of the last future that returned
  before it and not a value of the failing item: after an item whose row was built from the
  run \<open>r\<close>, the row of a failing item carries the status of \<open>r\<close>, in the loop and in the
  report that \<open>check_files_status\<close> merges from its rows. While no future has
  returned, \<open>run\<close> is unbound and the handler raises \<open>UnboundLocalError\<close>: when the first
  completed future raised, \<open>check_files_status\<close> raises it and returns no report.
\<close>

theorem status_failure_reads_leftover_run:
  "status_failed_row fid None e = Inl (UnboundLocalError ''run'') \<and>
   (get_successful_document_ids df = Inr ids \<and> 0 < max_workers \<and>
    as_completed (map (\<lambda>fid. (fst (check_status_of_ingestion w tid fid), fid)) ids) =
      (Inl e, fid) # rest \<longrightarrow>
      check_files_status w as_completed tid df max_workers = Inl (UnboundLocalError ''run'')) \<and>
   (getitem r ''status'' = Inr st \<longrightarrow>
      status_loop ((Inl e, fid) # rest) (Some r) status_results =
      status_loop rest (Some r)
        (status_results @
          [[(''file_id'', fid), (''status'', Value st), (''output'', Value JNull),
            (''error'', Str_of e)]])) \<and>
   (status_row f1 r = Inr row1 \<longrightarrow>
      (\<exists>st. getitem r ''status'' = Inr st \<and>
        status_loop ((Inr r, f1) # (Inl e, f2) # rest) run status_results =
        status_loop rest (Some r)
          (status_results @
            [row1,
             [(''file_id'', f2), (''status'', Value st), (''output'', Value JNull),
              (''error'', Str_of e)]]))) \<and>
   (get_successful_document_ids df = Inr ids \<and> 0 < max_workers \<and>
    as_completed (map (\<lambda>fid. (fst (check_status_of_ingestion w tid fid), fid)) ids) =
      (Inr r, f1) # (Inl e, f2) # rest \<and>
    status_row f1 r = Inr row1 \<longrightarrow>
      (\<exists>st. getitem r ''status'' = Inr st \<and>
        check_files_status w as_completed tid df max_workers =
          (case status_loop rest (Some r)
                  [row1,
                   [(''file_id'', f2), (''status'', Value st), (''output'', Value JNull),
                    (''error'', Str_of e)]] of
             Inl e' \<Rightarrow> Inl e'
           | Inr status_results \<Rightarrow> merge_left df status_results)))"
proof (intro conjI impI)
  show "status_failed_row fid None e = Inl (UnboundLocalError ''run'')"
    by (simp add: status_failed_row_def)
next
  assume "get_successful_document_ids df = Inr ids \<and> 0 < max_workers \<and>
    as_completed (map (\<lambda>fid. (fst (check_status_of_ingestion w tid fid), fid)) ids) =
      (Inl e, fid) # rest"
  then show "check_files_status w as_completed tid df max_workers =
      Inl (UnboundLocalError ''run'')"
    by (simp add: check_files_status_def status_failed_row_def)
next
  assume "getitem r ''status'' = Inr st"
  then show "status_loop ((Inl e, fid) # rest) (Some r) status_results =
      status_loop rest (Some r)
        (status_results @
          [[(''file_id'', fid), (''status'', Value st), (''output'', Value JNull),
            (''error'', Str_of e)]])"
    by (simp add: status_failed_row_def)
next
  assume row1: "status_row f1 r = Inr row1"
  then obtain st where st: "getitem r ''status'' = Inr st"
    by (auto simp: status_row_def split: sum.splits)
  with row1 have "status_loop ((Inr r, f1) # (Inl e, f2) # rest) run status_results =
      status_loop rest (Some r)
        (status_results @
          [row1,
           [(''file_id'', f2), (''status'', Value st), (''output'', Value JNull),
            (''error'', Str_of e)]])"
    by (simp add: status_failed_row_def)
  with st show "\<exists>st. getitem r ''status'' = Inr st \<and>
      status_loop ((Inr r, f1) # (Inl e, f2) # rest) run status_results =
      status_loop rest (Some r)
        (status_results @
          [row1,
           [(''file_id'', f2), (''status'', Value st), (''output'', Value JNull),
            (''error'', Str_of e)]])"
    by blast
next
  assume a: "get_successful_document_ids df = Inr ids \<and> 0 < max_workers \<and>
    as_completed (map (\<lambda>fid. (fst (check_status_of_ingestion w tid fid), fid)) ids) =
      (Inr r, f1) # (Inl e, f2) # rest \<and>
    status_row f1 r = Inr row1"
  then obtain st where st: "getitem r ''status'' = Inr st"
    by (auto simp: status_row_def split: sum.splits)
  with a have "status_loop ((Inr r, f1) # (Inl e, f2) # rest) None [] =
      status_loop rest (Some r)
        [row1,
         [(''file_id'', f2), (''status'', Value st), (''output'', Value JNull),
          (''error'', Str_of e)]]"
    by (simp add: status_failed_row_def)
  with a have "check_files_status w as_completed tid df max_workers =
      (case status_loop rest (Some r)
              [row1,
               [(''file_id'', f2), (''status'', Value st), (''output'', Value JNull),
                (''error'', Str_of e)]] of
         Inl e' \<Rightarrow> Inl e'
       | Inr status_results \<Rightarrow> merge_left df status_results)"
    by (simp add: check_files_status_def)
  with st show "\<exists>st. getitem r ''status'' = Inr st \<and>
      check_files_status w as_completed tid df max_workers =
        (case status_loop rest (Some r)
                [row1,
                 [(''file_id'', f2), (''status'', Value st), (''output'', Value JNull),
                  (''error'', Str_of e)]] of
           Inl e' \<Rightarrow> Inl e'
         | Inr status_results \<Rightarrow> merge_left df status_results)"
    by blast
qed

lemma status_loop_example:
  "status_loop
     [(Inr (example_run ''r-a'' ''completed'' (JObject [(''datasetId'', JString ''d1'')])),
       Value (JString ''f-a'')),
      (Inl (RetryError (HTTPError 503)), Value (JString ''f-b''))] None [] =
   Inr [[(''file_id'', Value (JString ''f-a'')), (''run_id'', Value (JString ''r-a'')),
         (''status'', Value (JString ''completed'')),
         (''output'', Dumps (JObject [(''datasetId'', JString ''d1'')])),
         (''error'', Value (JArray []))],
        [(''file_id'', Value (JString ''f-b'')), (''status'', Value (JString ''completed'')),
         (''output'', Value JNull), (''error'', Str_of (RetryError (HTTPError 503)))]]"
  by code_simp

lemma frame_two_reversed:
  "get_successful_document_ids frame_two =
     Inr [Value (JString ''f-a''), Value (JString ''f-b'')] \<and>
   rev (map (\<lambda>fid. (fst (check_status_of_ingestion example_platform ''t'' fid), fid))
          [Value (JString ''f-a''), Value (JString ''f-b'')]) =
     [(Inl (RetryError (HTTPError 503)), Value (JString ''f-b'')),
      (Inr (example_run ''r-a'' ''completed'' (JObject [(''datasetId'', JString ''d1'')])),
       Value (JString ''f-a''))]"
  by code_simp

lemma frame_two_in_order:
  "map (\<lambda>fid. (fst (check_status_of_ingestion example_platform ''t'' fid), fid))
     [Value (JString ''f-a''), Value (JString ''f-b'')] =
     [(Inr (example_run ''r-a'' ''completed'' (JObject [(''datasetId'', JString ''d1'')])),
       Value (JString ''f-a'')),
      (Inl (RetryError (HTTPError 503)), Value (JString ''f-b''))] \<and>
   status_row (Value (JString ''f-a''))
     (example_run ''r-a'' ''completed'' (JObject [(''datasetId'', JString ''d1'')])) =
     Inr [(''file_id'', Value (JString ''f-a'')), (''run_id'', Value (JString ''r-a'')),
          (''status'', Value (JString ''completed'')),
          (''output'', Dumps (JObject [(''datasetId'', JString ''d1'')])),
          (''error'', Value (JArray []))] \<and>
   getitem (example_run ''r-a'' ''completed'' (JObject [(''datasetId'', JString ''d1'')]))
     ''status'' = Inr (JString ''completed'')"
  by code_simp

lemma frame_two_merged:
  "merge_left frame_two
     [[(''file_id'', Value (JString ''f-a'')), (''run_id'', Value (JString ''r-a'')),
       (''status'', Value (JString ''completed'')),
       (''output'', Dumps (JObject [(''datasetId'', JString ''d1'')])),
       (''error'', Value (JArray []))],
      [(''file_id'', Value (JString ''f-b'')), (''status'', Value (JString ''completed'')),
       (''output'', Value JNull), (''error'', Str_of (RetryError (HTTPError 503)))]] =
   Inr [[(''file_path'', Value (JString ''two/a.pdf'')),
         (''file_id'', Value (JString ''f-a'')),
         (''status_ingestion'', Value (JString ''Success'')),
         (''error_type'', Value JNull), (''error_message'', Value JNull),
         (''run_id'', Value (JString ''r-a'')),
         (''status'', Value (JString ''completed'')),
         (''output'', Dumps (JObject [(''datasetId'', JString ''d1'')])),
         (''error'', Value (JArray []))],
        [(''file_path'', Value (JString ''two/b.pdf'')),
         (''file_id'', Value (JString ''f-b'')),
         (''status_ingestion'', Value (JString ''Success'')),
         (''error_type'', Value JNull), (''error_message'', Value JNull),
         (''run_id'', Value JNull),
         (''status'', Value (JString ''completed'')),
         (''output'', Value JNull),
         (''error'', Str_of (RetryError (HTTPError 503)))]]"
  by code_simp

theorem status_failure_reads_leftover_run_witness:
  "check_files_status example_platform rev ''t'' frame_two 3 = Inl (UnboundLocalError ''run'') \<and>
   status_loop
     [(Inr (example_run ''r-a'' ''completed'' (JObject [(''datasetId'', JString ''d1'')])),
       Value (JString ''f-a'')),
      (Inl (RetryError (HTTPError 503)), Value (JString ''f-b''))] None [] =
   Inr [[(''file_id'', Value (JString ''f-a'')), (''run_id'', Value (JString ''r-a'')),
         (''status'', Value (JString ''completed'')),
         (''output'', Dumps (JObject [(''datasetId'', JString ''d1'')])),
         (''error'', Value (JArray []))],
        [(''file_id'', Value (JString ''f-b'')), (''status'', Value (JString ''completed'')),
         (''output'', Value JNull), (''error'', Str_of (RetryError (HTTPError 503)))]] \<and>
   check_files_status example_platform in_submission_order ''t'' frame_two 3 =
   Inr [[(''file_path'', Value (JString ''two/a.pdf'')),
         (''file_id'', Value (JString ''f-a'')),
         (''status_ingestion'', Value (JString ''Success'')),
         (''error_type'', Value JNull), (''error_message'', Value JNull),
         (''run_id'', Value (JString ''r-a'')),
         (''status'', Value (JString ''completed'')),
         (''output'', Dumps (JObject [(''datasetId'', JString ''d1'')])),
         (''error'', Value (JArray []))],
        [(''file_path'', Value (JString ''two/b.pdf'')),
         (''file_id'', Value (JString ''f-b'')),
         (''status_ingestion'', Value (JString ''Success'')),
         (''error_type'', Value JNull), (''error_message'', Value JNull),
         (''run_id'', Value JNull),
         (''status'', Value (JString ''completed'')),
         (''output'', Value JNull),
         (''error'', Str_of (RetryError (HTTPError 503)))]]"
proof -
  have loop_and_raise:
    "check_files_status example_platform rev ''t'' frame_two 3 =
       Inl (UnboundLocalError ''run'') \<and>
     status_loop
       [(Inr (example_run ''r-a'' ''completed'' (JObject [(''datasetId'', JString ''d1'')])),
         Value (JString ''f-a'')),
        (Inl (RetryError (HTTPError 503)), Value (JString ''f-b''))] None [] =
     Inr [[(''file_id'', Value (JString ''f-a'')), (''run_id'', Value (JString ''r-a'')),
           (''status'', Value (JString ''completed'')),
           (''output'', Dumps (JObject [(''datasetId'', JString ''d1'')])),
           (''error'', Value (JArray []))],
          [(''file_id'', Value (JString ''f-b'')), (''status'', Value (JString ''completed'')),
           (''output'', Value JNull), (''error'', Str_of (RetryError (HTTPError 503)))]]"
    using
      status_failure_reads_leftover_run[of "Value (JString ''f-b'')" "RetryError (HTTPError 503)"
        frame_two "[Value (JString ''f-a''), Value (JString ''f-b'')]" 3 rev example_platform
        "''t''"
        "[(Inr (example_run ''r-a'' ''completed'' (JObject [(''datasetId'', JString ''d1'')])),
           Value (JString ''f-a''))]"
        "example_run ''r-a'' ''completed'' (JObject [(''datasetId'', JString ''d1'')])"
        "JString ''completed''" "[]" "Value (JString ''f-a'')"
        "[(''file_id'', Value (JString ''f-a'')), (''run_id'', Value (JString ''r-a'')),
          (''status'', Value (JString ''completed'')),
          (''output'', Dumps (JObject [(''datasetId'', JString ''d1'')])),
          (''error'', Value (JArray []))]"
        "Value (JString ''f-b'')" None]
      frame_two_reversed status_loop_example
    by simp
  have merged:
    "check_files_status example_platform in_submission_order ''t'' frame_two 3 =
     Inr [[(''file_path'', Value (JString ''two/a.pdf'')),
           (''file_id'', Value (JString ''f-a'')),
           (''status_ingestion'', Value (JString ''Success'')),
           (''error_type'', Value JNull), (''error_message'', Value JNull),
           (''run_id'', Value (JString ''r-a'')),
           (''status'', Value (JString ''completed'')),
           (''output'', Dumps (JObject [(''datasetId'', JString ''d1'')])),
           (''error'', Value (JArray []))],
          [(''file_path'', Value (JString ''two/b.pdf'')),
           (''file_id'', Value (JString ''f-b'')),
           (''status_ingestion'', Value (JString ''Success'')),
           (''error_type'', Value JNull), (''error_message'', Value JNull),
           (''run_id'', Value JNull),
           (''status'', Value (JString ''completed'')),
           (''output'', Value JNull),
           (''error'', Str_of (RetryError (HTTPError 503)))]]"
    using
      status_failure_reads_leftover_run[of "Value (JString ''f-b'')" "RetryError (HTTPError 503)"
        frame_two "[Value (JString ''f-a''), Value (JString ''f-b'')]" 3 in_submission_order
        example_platform "''t''" "[]"
        "example_run ''r-a'' ''completed'' (JObject [(''datasetId'', JString ''d1'')])"
        "JString ''completed''" "[]" "Value (JString ''f-a'')"
        "[(''file_id'', Value (JString ''f-a'')), (''run_id'', Value (JString ''r-a'')),
          (''status'', Value (JString ''completed'')),
          (''output'', Dumps (JObject [(''datasetId'', JString ''d1'')])),
          (''error'', Value (JArray []))]"
        "Value (JString ''f-b'')" None]
      frame_two_reversed frame_two_in_order frame_two_merged
    by (simp add: in_submission_order_def)
  from loop_and_raise merged show ?thesis by simp
qed

text \<open>
  The left join keeps the rows of the left frame, one for one, when no two rows of the
  right frame have the same key.
\<close>

lemma filter_key_at_most_one:
  "distinct (map key right) \<Longrightarrow> length (filter (\<lambda>r. key r = k) right) \<le> 1"
proof (induction right)
  case Nil
  then show ?case by simp
next
  case (Cons r right)
  show ?case
  proof (cases "key r = k")
    case True
    from Cons.prems have "key r \<notin> key ` set right" by simp
    with True have "\<forall>x\<in>set right. key x \<noteq> k" by blast
    then have "filter (\<lambda>r. key r = k) right = []"
      by (simp add: filter_empty_conv)
    with True show ?thesis by simp
  next
    case False
    with Cons show ?thesis by simp
  qed
qed

lemma length_concat_singletons:
  "(\<And>x. x \<in> set xs \<Longrightarrow> length (f x) = 1) \<Longrightarrow> length (concat (map f xs)) = length xs"
  by (induction xs) simp_all

lemma merge_left_keeps_left_rows:
  assumes "merge_left left right = Inr merged"
    and "distinct (map (\<lambda>r. column r ''file_id'') right)"
  shows "length merged = length left"
proof -
  have one: "length (case filter (\<lambda>r. column r ''file_id'' = k) right of
                      [] \<Rightarrow> [a] | matches \<Rightarrow> map g matches) = 1" for k a and g :: "row \<Rightarrow> row"
    using filter_key_at_most_one[OF assms(2), of k]
    by (cases "filter (\<lambda>r. column r ''file_id'' = k) right") simp_all
  from assms(1) show ?thesis
    by (auto simp: merge_left_def Let_def one length_concat_singletons split: if_splits)
qed

text \<open>
  Claim C7. The merged report does not have an empty status for an item whose phase-2
  lookup failed: with the frame of the directory \<open>two\<close>, where both uploads succeeded, the
  query for \<open>f-a\<close> returns a completed run and the query for \<open>f-b\<close> fails, the row of
  \<open>f-b\<close> in the report of \<open>check_files_status\<close> has the status \<open>completed\<close>, which is the
  status of the run of \<open>f-a\<close>.
\<close>

theorem check_files_status_failed_lookup_not_null:
  "ingest_all_documents example_platform in_submission_order ''two'' JNull ''s'' 3 =
     Inr frame_two \<and>
   get_successful_document_ids frame_two =
     Inr [Value (JString ''f-a''), Value (JString ''f-b'')] \<and>
   fst (check_status_of_ingestion example_platform ''t'' (Value (JString ''f-b''))) =
     Inl (RetryError (HTTPError 503)) \<and>
   check_files_status example_platform in_submission_order ''t'' frame_two 3 =
     Inr [[(''file_path'', Value (JString ''two/a.pdf'')),
           (''file_id'', Value (JString ''f-a'')),
           (''status_ingestion'', Value (JString ''Success'')),
           (''error_type'', Value JNull), (''error_message'', Value JNull),
           (''run_id'', Value (JString ''r-a'')),
           (''status'', Value (JString ''completed'')),
           (''output'', Dumps (JObject [(''datasetId'', JString ''d1'')])),
           (''error'', Value (JArray []))],
          [(''file_path'', Value (JString ''two/b.pdf'')),
           (''file_id'', Value (JString ''f-b'')),
           (''status_ingestion'', Value (JString ''Success'')),
           (''error_type'', Value JNull), (''error_message'', Value JNull),
           (''run_id'', Value JNull),
           (''status'', Value (JString ''completed'')),
           (''output'', Value JNull),
           (''error'', Str_of (RetryError (HTTPError 503)))]]"
  by code_simp

text \<open>
  Claim C8. On the merged report of the example, whose rows 0 and 2 are completed and
  whose row 1 is running, the extraction does not return the two dataset ids: the
  selection keeps the labels 0 and 2, \<open>get_successful_dataset_ids\<close> reads the labels 0 and
  1, and the read of label 1 raises \<open>KeyError\<close>.
\<close>

theorem get_successful_dataset_ids_example_raises:
  "completed_rows example_report =
     Inr [(0, [(''status'', Value (JString ''completed'')),
               (''output'', Dumps (JObject [(''datasetId'', JString ''d1'')]))]),
          (2, [(''status'', Value (JString ''completed'')),
               (''output'', Dumps (JObject [(''datasetId'', JString ''d2'')]))])] \<and>
   successful_dataset_ids example_report = Inl (KeyError (JInt 1))"
  by code_simp

section \<open>The claim about the namespace-id helper\<close>

text \<open>
  Claim C10. \<open>createStoreId\<close> is a function of its arguments alone: with the default
  namespace it returns the text \<open>98215f16-4645-404f-8907-9469d95439e2-\<close> followed by the
  store name, and with an explicit namespace it returns the namespace, a hyphen and the
  store name, in that order.
\<close>

theorem createStoreId_concat:
  "createStoreId storeName None = ''98215f16-4645-404f-8907-9469d95439e2-'' @ storeName \<and>
   createStoreId storeName (Some ns) = ns @ ''-'' @ storeName"
  by (simp add: createStoreId_def APPLICATION_STORES_NAMESPACE_def)

end
